theory Spec2Isabelle
  imports Main "HOL-Library.Word"
begin

section \<open>The Flow Access API server on top of an archive index\<close>

text \<open>
  The development embeds the request handlers of package \<open>api\<close> (type \<open>Server\<close>):
  every handler is a HOL function of the index reader, of the functions it imports from
  other packages, and of its request. A Go result pair \<open>(resp, err)\<close> is a value of
  \<open>error + resp\<close>, \<open>Inl\<close> carrying the error.
\<close>

subsection \<open>Basic data\<close>

type_synonym bytes = "8 word list"
type_synonym uint32 = "32 word"
type_synonym uint64 = "64 word"

text \<open>
  A \<open>flow.Identifier\<close> is an array of 32 bytes; it is represented by the list of its
  bytes, so that the slice \<open>id[:]\<close> is the identifier itself. \<open>flow.HashToID\<close> copies
  a byte slice into a zeroed array: longer input is cut, shorter input is padded.
\<close>

type_synonym Identifier = bytes

definition HashToID :: "bytes \<Rightarrow> Identifier" where
  "HashToID hash = take 32 hash @ replicate (32 - length hash) 0"

text \<open>\<open>conv.IDToHash\<close> copies an identifier into a fresh slice of 32 bytes.\<close>

definition IDToHash :: "Identifier \<Rightarrow> bytes" where
  "IDToHash ident = take 32 ident @ replicate (32 - length ident) 0"

text \<open>\<open>convert.IdentifierToMessage\<close> is the slice \<open>id[:]\<close>.\<close>

definition IdentifierToMessage :: "Identifier \<Rightarrow> bytes" where
  "IdentifierToMessage ident = ident"

subsection \<open>Errors\<close>

text \<open>
  The handlers build errors in two ways: \<open>errors.New(msg)\<close>, and
  \<open>fmt.Errorf(format, args..., err)\<close> whose format ends in \<open>%w\<close> and wraps \<open>err\<close>
  (which is \<open>nil\<close> on one path of \<open>GetTransactionResultByIndex\<close>). The error value
  keeps the format string, the formatted arguments and the wrapped cause.
\<close>

datatype fmtarg = U64 uint64 | U32 uint32 | Hex bytes

datatype error = New string | Errorf string "fmtarg list" "error option"

text \<open>
  The errors have no kind of their own. The one classification an error of a handler
  receives is the status code the gRPC server derives from it (\<open>status.Code\<close>): the code
  of a status error, and \<open>codes.Unknown\<close> for every other error. The handlers build no
  status error, so both kinds of error value are reported as \<open>Unknown\<close>.
\<close>

datatype Code = OK | Canceled | Unknown | InvalidArgument | DeadlineExceeded | NotFound
  | AlreadyExists | PermissionDenied | ResourceExhausted | FailedPrecondition | Aborted
  | OutOfRange | Unimplemented | Internal | Unavailable | DataLoss | Unauthenticated

fun status_Code :: "error \<Rightarrow> Code" where
  "status_Code (New msg) = Unknown"
| "status_Code (Errorf format args cause) = Unknown"

text \<open>A handler that dereferences a nil pointer does not return: the goroutine panics.\<close>

datatype panic = NilDereference

datatype 'a go_result = Returned "error + 'a" | Panicked panic

subsection \<open>Entities of the index\<close>

text \<open>An instant (\<open>time.Time\<close>), in nanoseconds since the Unix epoch.\<close>

type_synonym Time = int

type_synonym EventType = string

text \<open>The fields of \<open>flow.Header\<close>, \<open>flow.Seal\<close>, \<open>flow.CollectionGuarantee\<close>,
  \<open>flow.LightCollection\<close> and \<open>flow.TransactionResult\<close> that the handlers read.\<close>

record Header =
  ChainID :: string
  ParentID :: Identifier
  Timestamp :: Time
  ParentVoterSigData :: bytes

record Seal =
  BlockID :: Identifier
  ResultID :: Identifier

record Guarantee =
  Signature :: bytes

record LightCollection =
  Transactions :: "Identifier list"

record TransactionResult =
  ErrorMessage :: string

text \<open>
  \<open>archive.Reader\<close>, the index the server reads. The transaction bodies \<open>'tx\<close> and
  the events \<open>'ev\<close> are opaque to the server. \<open>Events\<close> takes the variadic list of
  event types.
\<close>

record ('tx, 'ev) Reader =
  First :: "error + uint64"
  Last :: "error + uint64"
  Header :: "uint64 \<Rightarrow> error + Header"
  HeightForBlock :: "Identifier \<Rightarrow> error + uint64"
  HeightForTransaction :: "Identifier \<Rightarrow> error + uint64"
  SealsByHeight :: "uint64 \<Rightarrow> error + Identifier list"
  Seal :: "Identifier \<Rightarrow> error + Seal"
  CollectionsByHeight :: "uint64 \<Rightarrow> error + Identifier list"
  Guarantee :: "Identifier \<Rightarrow> error + Guarantee"
  Collection :: "Identifier \<Rightarrow> error + LightCollection"
  Transaction :: "Identifier \<Rightarrow> error + 'tx"
  Result :: "Identifier \<Rightarrow> error + TransactionResult"
  TransactionsByHeight :: "uint64 \<Rightarrow> error + Identifier list"
  Events :: "uint64 \<Rightarrow> EventType list \<Rightarrow> error + 'ev list"

text \<open>
  The protobuf message \<open>entities.Event\<close>. Fields of different messages that share a
  name are told apart by the name of their record (\<open>Event.Type\<close>).
\<close>

record Event =
  Type :: string
  TransactionId :: bytes
  TransactionIndex :: uint32
  EventIndex :: uint32
  Payload :: bytes

text \<open>
  The functions of imported packages that the handlers call, as parameters:
  \<open>header.ID()\<close>, the signer decoder, the conversions of package \<open>convert\<close>, the two
  timestamp conversions, \<open>blueprints.SystemChunkTransaction\<close> (applied to
  \<open>header.ChainID.Chain()\<close>) and the JSON-Cadence codec. \<open>'hm\<close> is the header
  message, \<open>'ts\<close> the timestamp message, \<open>'txm\<close> the transaction message, \<open>'val\<close>
  a Cadence value. \<open>convert.EventsToMessages\<close> maps \<open>EventToMessage\<close> over a list.
\<close>

record ('hm, 'ts, 'tx, 'txm, 'ev, 'val) Lib =
  header_ID :: "Header \<Rightarrow> Identifier"
  DecodeSignerIDs :: "Header \<Rightarrow> error + Identifier list"
  BlockHeaderToMessage :: "Header \<Rightarrow> Identifier list \<Rightarrow> error + 'hm"
  MessageToBlockHeader :: "'hm \<Rightarrow> error + Header"
  timestamppb_New :: "Time \<Rightarrow> 'ts"
  TimestampProto :: "Time \<Rightarrow> error + 'ts"
  EventToMessage :: "'ev \<Rightarrow> Event"
  TransactionToMessage :: "'tx \<Rightarrow> 'txm"
  SystemChunkTransaction :: "string \<Rightarrow> error + 'tx"
  json_Decode :: "bytes \<Rightarrow> error + 'val"
  json_Encode :: "'val \<Rightarrow> error + bytes"

text \<open>
  The script invoker. Calling it is the one effect the handlers have: a handler that may
  call it returns, beside its result, the list of the calls it made.
\<close>

record 'val Invoker =
  Script :: "uint64 \<Rightarrow> bytes \<Rightarrow> 'val list \<Rightarrow> error + 'val"

datatype 'val invocation = ScriptCall uint64 bytes "'val list"

subsection \<open>Block headers\<close>

record 'hm BlockHeaderResponse =
  Block :: 'hm

definition GetBlockHeaderByHeight ::
  "('hm, 'ts, 'tx, 'txm, 'ev, 'val) Lib \<Rightarrow> ('tx, 'ev) Reader \<Rightarrow> uint64 \<Rightarrow>
     error + 'hm BlockHeaderResponse" where
  "GetBlockHeaderByHeight lib index inHeight =
    (case Header index inHeight of
       Inl err \<Rightarrow> Inl (Errorf ''could not retrieve block header at height %d: %w''
                        [U64 inHeight] (Some err))
     | Inr header \<Rightarrow>
     (case DecodeSignerIDs lib header of
       Inl err \<Rightarrow> Inl (Errorf ''could not decode signer ids at height %d: %w''
                        [U64 inHeight] (Some err))
     | Inr signerIDs \<Rightarrow>
     (case BlockHeaderToMessage lib header signerIDs of
       Inl err \<Rightarrow> Inl (Errorf ''could not convert block header to RPC entity: %w'' [] (Some err))
     | Inr blockMsg \<Rightarrow> Inr \<lparr>BlockHeaderResponse.Block = blockMsg\<rparr>)))"

definition GetLatestBlockHeader ::
  "('hm, 'ts, 'tx, 'txm, 'ev, 'val) Lib \<Rightarrow> ('tx, 'ev) Reader \<Rightarrow>
     error + 'hm BlockHeaderResponse" where
  "GetLatestBlockHeader lib index =
    (case Last index of
       Inl err \<Rightarrow> Inl (Errorf ''could not retrieve last block height: %w'' [] (Some err))
     | Inr height \<Rightarrow> GetBlockHeaderByHeight lib index height)"

definition GetBlockHeaderByID ::
  "('hm, 'ts, 'tx, 'txm, 'ev, 'val) Lib \<Rightarrow> ('tx, 'ev) Reader \<Rightarrow> bytes \<Rightarrow>
     error + 'hm BlockHeaderResponse" where
  "GetBlockHeaderByID lib index inId =
    (let blockID = HashToID inId in
     case HeightForBlock index blockID of
       Inl err \<Rightarrow> Inl (Errorf ''could not get height for block %x: %w'' [Hex blockID] (Some err))
     | Inr height \<Rightarrow> GetBlockHeaderByHeight lib index height)"

subsection \<open>Blocks\<close>

record BlockSeal =
  BlockId :: bytes
  ExecutionReceiptId :: bytes
  ExecutionReceiptSignatures :: "bytes list"

record CollectionGuarantee =
  CollectionId :: bytes
  Signatures :: "bytes list"

record 'ts Block =
  Id :: bytes
  Height :: uint64
  ParentId :: bytes
  Timestamp :: 'ts
  CollectionGuarantees :: "CollectionGuarantee list"
  BlockSeals :: "BlockSeal list"
  Signatures :: "bytes list"

record 'ts BlockResponse =
  Block :: "'ts Block"

text \<open>The loop over \<open>sealIDs\<close>; \<open>seals\<close> is the slice built so far.\<close>

fun GetBlockByHeight_seals ::
  "('tx, 'ev) Reader \<Rightarrow> Identifier list \<Rightarrow> BlockSeal list \<Rightarrow> error + BlockSeal list" where
  "GetBlockByHeight_seals index [] seals = Inr seals"
| "GetBlockByHeight_seals index (sealID # sealIDs) seals =
    (case Seal index sealID of
       Inl err \<Rightarrow> Inl (Errorf ''could not get seal with ID %x: %w'' [Hex sealID] (Some err))
     | Inr seal \<Rightarrow>
        (let blockID = BlockID seal;
             resultID = ResultID seal;
             entity = \<lparr>BlockId = blockID,
                       ExecutionReceiptId = resultID,
                       ExecutionReceiptSignatures = []\<rparr>
         in GetBlockByHeight_seals index sealIDs (seals @ [entity])))"

text \<open>The loop over \<open>collIDs\<close>.\<close>

fun GetBlockByHeight_collections ::
  "('tx, 'ev) Reader \<Rightarrow> Identifier list \<Rightarrow> CollectionGuarantee list \<Rightarrow>
     error + CollectionGuarantee list" where
  "GetBlockByHeight_collections index [] collections = Inr collections"
| "GetBlockByHeight_collections index (collID # collIDs) collections =
    (case Guarantee index collID of
       Inl err \<Rightarrow> Inl (Errorf ''could not get collection with ID %x: %w'' [Hex collID] (Some err))
     | Inr guarantee \<Rightarrow>
        (let entity = \<lparr>CollectionId = IDToHash collID,
                       CollectionGuarantee.Signatures = [Signature guarantee]\<rparr>
         in GetBlockByHeight_collections index collIDs (collections @ [entity])))"

definition GetBlockByHeight ::
  "('hm, 'ts, 'tx, 'txm, 'ev, 'val) Lib \<Rightarrow> ('tx, 'ev) Reader \<Rightarrow> uint64 \<Rightarrow>
     error + 'ts BlockResponse" where
  "GetBlockByHeight lib index inHeight =
    (case Header index inHeight of
       Inl err \<Rightarrow> Inl (Errorf ''could not get header for height %d: %w'' [U64 inHeight] (Some err))
     | Inr header \<Rightarrow>
     (case SealsByHeight index inHeight of
       Inl err \<Rightarrow> Inl (Errorf ''could not get seals for height %d: %w'' [U64 inHeight] (Some err))
     | Inr sealIDs \<Rightarrow>
     (case GetBlockByHeight_seals index sealIDs [] of
       Inl err \<Rightarrow> Inl err
     | Inr seals \<Rightarrow>
     (case CollectionsByHeight index inHeight of
       Inl err \<Rightarrow> Inl (Errorf ''could not get collections for height %d: %w''
                        [U64 inHeight] (Some err))
     | Inr collIDs \<Rightarrow>
     (case GetBlockByHeight_collections index collIDs [] of
       Inl err \<Rightarrow> Inl err
     | Inr collections \<Rightarrow>
        (let blockID = header_ID lib header;
             block = \<lparr>Id = blockID,
                      Height = inHeight,
                      ParentId = ParentID header,
                      Block.Timestamp = timestamppb_New lib (Header.Timestamp header),
                      CollectionGuarantees = collections,
                      BlockSeals = seals,
                      Block.Signatures = [ParentVoterSigData header]\<rparr>
         in Inr \<lparr>BlockResponse.Block = block\<rparr>))))))"

definition GetLatestBlock ::
  "('hm, 'ts, 'tx, 'txm, 'ev, 'val) Lib \<Rightarrow> ('tx, 'ev) Reader \<Rightarrow> error + 'ts BlockResponse" where
  "GetLatestBlock lib index =
    (case Last index of
       Inl err \<Rightarrow> Inl (Errorf ''could not get last height: %w'' [] (Some err))
     | Inr height \<Rightarrow> GetBlockByHeight lib index height)"

definition GetBlockByID ::
  "('hm, 'ts, 'tx, 'txm, 'ev, 'val) Lib \<Rightarrow> ('tx, 'ev) Reader \<Rightarrow> bytes \<Rightarrow>
     error + 'ts BlockResponse" where
  "GetBlockByID lib index inId =
    (let blockID = HashToID inId in
     case HeightForBlock index blockID of
       Inl err \<Rightarrow> Inl (Errorf ''could not get height for block %x: %w'' [Hex blockID] (Some err))
     | Inr height \<Rightarrow> GetBlockByHeight lib index height)"

subsection \<open>Transactions and their results\<close>

record 'txm TransactionResponse =
  Transaction :: 'txm

definition GetTransaction ::
  "('hm, 'ts, 'tx, 'txm, 'ev, 'val) Lib \<Rightarrow> ('tx, 'ev) Reader \<Rightarrow> bytes \<Rightarrow>
     error + 'txm TransactionResponse" where
  "GetTransaction lib index inId =
    (let txID = HashToID inId in
     case Reader.Transaction index txID of
       Inl err \<Rightarrow> Inl (Errorf ''could not retrieve transaction: %w'' [] (Some err))
     | Inr tx \<Rightarrow> Inr \<lparr>TransactionResponse.Transaction = TransactionToMessage lib tx\<rparr>)"

datatype TransactionStatus = UNKNOWN | PENDING | FINALIZED | EXECUTED | SEALED | EXPIRED

record TransactionResultResponse =
  Status :: TransactionStatus
  StatusCode :: uint32
  ErrorMessage :: string
  Events :: "Event list"
  BlockId :: bytes

definition GetTransactionResult ::
  "('hm, 'ts, 'tx, 'txm, 'ev, 'val) Lib \<Rightarrow> ('tx, 'ev) Reader \<Rightarrow> bytes \<Rightarrow>
     error + TransactionResultResponse" where
  "GetTransactionResult lib index inId =
    (let txID = HashToID inId in
     case Result index txID of
       Inl err \<Rightarrow> Inl (Errorf ''could not retrieve transaction result: %w'' [] (Some err))
     | Inr result \<Rightarrow>
     (case HeightForTransaction index txID of
       Inl err \<Rightarrow> Inl (Errorf ''could not retrieve block height: %w'' [] (Some err))
     | Inr height \<Rightarrow>
     (case Header index height of
       Inl err \<Rightarrow> Inl (Errorf ''could not retrieve block header: %w'' [] (Some err))
     | Inr block \<Rightarrow>
     (let blockID = header_ID lib block;
          statusCode = (if TransactionResult.ErrorMessage result = [] then 1 else 0)
      in case Last index of
       Inl err \<Rightarrow> Inl (Errorf ''could not retrieve last height: %w'' [] (Some err))
     | Inr sealedHeight \<Rightarrow>
     (let status = (if height > sealedHeight then EXECUTED else SEALED)
      in case Reader.Events index height [] of
       Inl err \<Rightarrow> Inl (Errorf ''could not retrieve events: %w'' [] (Some err))
     | Inr events \<Rightarrow>
        Inr \<lparr>Status = status,
             StatusCode = statusCode,
             TransactionResultResponse.ErrorMessage = TransactionResult.ErrorMessage result,
             TransactionResultResponse.Events = map (EventToMessage lib) events,
             TransactionResultResponse.BlockId = blockID\<rparr>)))))"

record TransactionResultsResponse =
  TransactionResults :: "TransactionResultResponse list"

text \<open>The loop over the transactions of the height.\<close>

fun GetTransactionResultsByBlockID_loop ::
  "('hm, 'ts, 'tx, 'txm, 'ev, 'val) Lib \<Rightarrow> ('tx, 'ev) Reader \<Rightarrow> Identifier list \<Rightarrow>
     TransactionResultResponse list \<Rightarrow> error + TransactionResultResponse list" where
  "GetTransactionResultsByBlockID_loop lib index [] transactionResults = Inr transactionResults"
| "GetTransactionResultsByBlockID_loop lib index (transaction # transactions) transactionResults =
    (case GetTransactionResult lib index (IdentifierToMessage transaction) of
       Inl err \<Rightarrow> Inl (Errorf ''could not get transaction for id %x: %w''
                        [Hex transaction] (Some err))
     | Inr response \<Rightarrow>
        GetTransactionResultsByBlockID_loop lib index transactions
          (transactionResults @ [response]))"

definition GetTransactionResultsByBlockID ::
  "('hm, 'ts, 'tx, 'txm, 'ev, 'val) Lib \<Rightarrow> ('tx, 'ev) Reader \<Rightarrow> bytes \<Rightarrow>
     error + TransactionResultsResponse" where
  "GetTransactionResultsByBlockID lib index inBlockId =
    (let blockId = HashToID inBlockId in
     case HeightForBlock index blockId of
       Inl err \<Rightarrow> Inl (Errorf ''could not get height for block %x: %w'' [Hex blockId] (Some err))
     | Inr height \<Rightarrow>
     (case TransactionsByHeight index height of
       Inl err \<Rightarrow> Inl (Errorf ''could not get transactions for height %x: %w''
                        [U64 height] (Some err))
     | Inr transactions \<Rightarrow>
     (case GetTransactionResultsByBlockID_loop lib index transactions [] of
       Inl err \<Rightarrow> Inl err
     | Inr transactionResults \<Rightarrow> Inr \<lparr>TransactionResults = transactionResults\<rparr>)))"

record GetTransactionByIndexRequest =
  BlockId :: bytes
  Index :: uint32

text \<open>
  \<open>GetTransactionResultByIndex\<close> reads \<open>resp.TransactionResults\<close> before it looks at
  \<open>err\<close>: when the call above it failed, \<open>resp\<close> is \<open>nil\<close> and the read panics. The two
  nested loops return the first result that has an event with the requested index; when
  there is none, the error wraps the \<open>err\<close> of the call, which is \<open>nil\<close> then.
\<close>

definition GetTransactionResultByIndex ::
  "('hm, 'ts, 'tx, 'txm, 'ev, 'val) Lib \<Rightarrow> ('tx, 'ev) Reader \<Rightarrow> GetTransactionByIndexRequest \<Rightarrow>
     TransactionResultResponse go_result" where
  "GetTransactionResultByIndex lib index req =
    (case GetTransactionResultsByBlockID lib index (GetTransactionByIndexRequest.BlockId req) of
       Inl err \<Rightarrow> Panicked NilDereference
     | Inr resp \<Rightarrow>
        (case find (\<lambda>result. list_ex (\<lambda>event. TransactionIndex event = Index req)
                                (TransactionResultResponse.Events result))
                (TransactionResults resp) of
           Some result \<Rightarrow> Returned (Inr result)
         | None \<Rightarrow> Returned (Inl (Errorf ''could not get transactions for index %x: %w''
                                     [U32 (Index req)] None))))"

record 'txm TransactionsResponse =
  Transactions :: "'txm list"

text \<open>The loop over the transactions of the height.\<close>

fun GetTransactionsByBlockID_loop ::
  "('hm, 'ts, 'tx, 'txm, 'ev, 'val) Lib \<Rightarrow> ('tx, 'ev) Reader \<Rightarrow> Identifier list \<Rightarrow>
     'txm list \<Rightarrow> error + 'txm list" where
  "GetTransactionsByBlockID_loop lib index [] transactionsEntity = Inr transactionsEntity"
| "GetTransactionsByBlockID_loop lib index (transaction # transactions) transactionsEntity =
    (case GetTransaction lib index (IdentifierToMessage transaction) of
       Inl err \<Rightarrow> Inl (Errorf ''could not get transactions for id %x: %w''
                        [Hex transaction] (Some err))
     | Inr resp \<Rightarrow>
        GetTransactionsByBlockID_loop lib index transactions
          (transactionsEntity @ [TransactionResponse.Transaction resp]))"

text \<open>
  \<open>GetTransactionsByBlockID\<close> drops the error of \<open>blueprints.SystemChunkTransaction\<close> and
  dereferences the transaction it returned, which is \<open>nil\<close> when the call failed.
\<close>

definition GetTransactionsByBlockID ::
  "('hm, 'ts, 'tx, 'txm, 'ev, 'val) Lib \<Rightarrow> ('tx, 'ev) Reader \<Rightarrow> bytes \<Rightarrow>
     'txm TransactionsResponse go_result" where
  "GetTransactionsByBlockID lib index inBlockId =
    (let blockId = HashToID inBlockId in
     case HeightForBlock index blockId of
       Inl err \<Rightarrow> Returned (Inl (Errorf ''could not get height for block %x: %w''
                                  [Hex blockId] (Some err)))
     | Inr height \<Rightarrow>
     (case GetBlockHeaderByHeight lib index height of
       Inl err \<Rightarrow> Returned (Inl (Errorf ''could not get header for height %x: %w''
                                  [U64 height] (Some err)))
     | Inr headerResp \<Rightarrow>
     (case MessageToBlockHeader lib (BlockHeaderResponse.Block headerResp) of
       Inl err \<Rightarrow> Returned (Inl (Errorf ''could not convert header for height %x: %w''
                                  [U64 height] (Some err)))
     | Inr header \<Rightarrow>
     (case TransactionsByHeight index height of
       Inl err \<Rightarrow> Returned (Inl (Errorf ''could not get transactions for height %x: %w''
                                  [U64 height] (Some err)))
     | Inr transactions \<Rightarrow>
     (case GetTransactionsByBlockID_loop lib index transactions [] of
       Inl err \<Rightarrow> Returned (Inl err)
     | Inr transactionsEntity \<Rightarrow>
     (case SystemChunkTransaction lib (ChainID header) of
       Inl err \<Rightarrow> Panicked NilDereference
     | Inr systemTx \<Rightarrow>
        Returned (Inr \<lparr>Transactions =
                         transactionsEntity @ [TransactionToMessage lib systemTx]\<rparr>)))))))"

subsection \<open>Scripts\<close>

record ExecuteScriptAtBlockHeightRequest =
  BlockHeight :: uint64
  Script :: bytes
  Arguments :: "bytes list"

record ExecuteScriptResponse =
  Value :: bytes

text \<open>The loop that decodes the arguments; \<open>args\<close> holds the values decoded so far.\<close>

fun ExecuteScriptAtBlockHeight_args ::
  "('hm, 'ts, 'tx, 'txm, 'ev, 'val) Lib \<Rightarrow> bytes list \<Rightarrow> 'val list \<Rightarrow> error + 'val list" where
  "ExecuteScriptAtBlockHeight_args lib [] args = Inr args"
| "ExecuteScriptAtBlockHeight_args lib (arg # rest) args =
    (case json_Decode lib arg of
       Inl err \<Rightarrow> Inl (Errorf ''could not decode script argument: %w'' [] (Some err))
     | Inr val \<Rightarrow> ExecuteScriptAtBlockHeight_args lib rest (args @ [val]))"

definition ExecuteScriptAtBlockHeight ::
  "('hm, 'ts, 'tx, 'txm, 'ev, 'val) Lib \<Rightarrow> 'val Invoker \<Rightarrow> ExecuteScriptAtBlockHeightRequest \<Rightarrow>
     (error + ExecuteScriptResponse) \<times> 'val invocation list" where
  "ExecuteScriptAtBlockHeight lib invoker req =
    (case ExecuteScriptAtBlockHeight_args lib (Arguments req) [] of
       Inl err \<Rightarrow> (Inl err, [])
     | Inr args \<Rightarrow>
        (let calls = [ScriptCall (BlockHeight req)
                        (ExecuteScriptAtBlockHeightRequest.Script req) args]
         in case Invoker.Script invoker (BlockHeight req)
                   (ExecuteScriptAtBlockHeightRequest.Script req) args of
              Inl err \<Rightarrow> (Inl (Errorf ''could not execute script: %w'' [] (Some err)), calls)
            | Inr value \<Rightarrow>
               (case json_Encode lib value of
                  Inl err \<Rightarrow>
                    (Inl (Errorf ''could not encode script result: %w'' [] (Some err)), calls)
                | Inr result \<Rightarrow> (Inr \<lparr>Value = result\<rparr>, calls))))"

subsection \<open>Events\<close>

record GetEventsForHeightRangeRequest =
  Type :: string
  StartHeight :: uint64
  EndHeight :: uint64

record GetEventsForBlockIDsRequest =
  Type :: string
  BlockIds :: "bytes list"

record 'ts EventsResponse_Result =
  BlockId :: bytes
  BlockHeight :: uint64
  BlockTimestamp :: 'ts
  Events :: "Event list"

record 'ts EventsResponse =
  Results :: "'ts EventsResponse_Result list"

text \<open>
  The loop \<open>for height := in.StartHeight; height <= in.EndHeight; height++\<close>. The counter
  is a \<open>uint64\<close>: the increment wraps around and the comparison is unsigned. Nothing
  bounds the number of rounds, so the loop is a partial function and \<open>None\<close> stands for
  a loop that never returns.
\<close>

partial_function (option) GetEventsForHeightRange_loop ::
  "('hm, 'ts, 'tx, 'txm, 'ev, 'val) Lib \<Rightarrow> ('tx, 'ev) Reader \<Rightarrow> EventType list \<Rightarrow>
     uint64 \<Rightarrow> uint64 \<Rightarrow> 'ts EventsResponse_Result list \<Rightarrow>
     (error + 'ts EventsResponse_Result list) option" where
  "GetEventsForHeightRange_loop lib index types height inEndHeight events =
    (if height \<le> inEndHeight then
       (case Reader.Events index height types of
          Inl err \<Rightarrow> Some (Inl (Errorf ''could not get events at height %d: %w''
                                 [U64 height] (Some err)))
        | Inr ee \<Rightarrow>
        (case Header index height of
          Inl err \<Rightarrow> Some (Inl (Errorf ''could not get header at height %d: %w''
                                 [U64 height] (Some err)))
        | Inr header \<Rightarrow>
        (case TimestampProto lib (Header.Timestamp header) of
          Inl err \<Rightarrow> Some (Inl (Errorf ''could not parse timestamp for block at height %d: %w''
                                 [U64 height] (Some err)))
        | Inr timestamp \<Rightarrow>
           (let messages = map (EventToMessage lib) ee;
                blockID = header_ID lib header;
                result = \<lparr>EventsResponse_Result.BlockId = blockID,
                          EventsResponse_Result.BlockHeight = height,
                          BlockTimestamp = timestamp,
                          EventsResponse_Result.Events = messages\<rparr>
            in GetEventsForHeightRange_loop lib index types (height + 1) inEndHeight
                 (events @ [result])))))
     else Some (Inr events))"

definition GetEventsForHeightRange ::
  "('hm, 'ts, 'tx, 'txm, 'ev, 'val) Lib \<Rightarrow> ('tx, 'ev) Reader \<Rightarrow> GetEventsForHeightRangeRequest \<Rightarrow>
     (error + 'ts EventsResponse) option" where
  "GetEventsForHeightRange lib index req =
    (let types = (if GetEventsForHeightRangeRequest.Type req \<noteq> []
                  then [GetEventsForHeightRangeRequest.Type req] else [])
     in case GetEventsForHeightRange_loop lib index types (StartHeight req) (EndHeight req) [] of
          None \<Rightarrow> None
        | Some (Inl err) \<Rightarrow> Some (Inl err)
        | Some (Inr events) \<Rightarrow> Some (Inr \<lparr>Results = events\<rparr>))"

text \<open>The loop over \<open>in.BlockIds\<close>.\<close>

fun GetEventsForBlockIDs_loop ::
  "('hm, 'ts, 'tx, 'txm, 'ev, 'val) Lib \<Rightarrow> ('tx, 'ev) Reader \<Rightarrow> EventType list \<Rightarrow>
     bytes list \<Rightarrow> 'ts EventsResponse_Result list \<Rightarrow>
     error + 'ts EventsResponse_Result list" where
  "GetEventsForBlockIDs_loop lib index types [] events = Inr events"
| "GetEventsForBlockIDs_loop lib index types (ident # idents) events =
    (let blockID = HashToID ident in
     case HeightForBlock index blockID of
       Inl err \<Rightarrow> Inl (Errorf ''could not get height of block with ID %x: %w''
                        [Hex ident] (Some err))
     | Inr height \<Rightarrow>
     (case Reader.Events index height types of
       Inl err \<Rightarrow> Inl (Errorf ''could not get events at height %d: %w'' [U64 height] (Some err))
     | Inr ee \<Rightarrow>
     (case Header index height of
       Inl err \<Rightarrow> Inl (Errorf ''could not get header at height %d: %w'' [U64 height] (Some err))
     | Inr header \<Rightarrow>
     (case TimestampProto lib (Header.Timestamp header) of
       Inl err \<Rightarrow> Inl (Errorf ''could not parse timestamp for block at height %d: %w''
                        [U64 height] (Some err))
     | Inr timestamp \<Rightarrow>
        (let messages = map (EventToMessage lib) ee;
             result = \<lparr>EventsResponse_Result.BlockId = blockID,
                       EventsResponse_Result.BlockHeight = height,
                       BlockTimestamp = timestamp,
                       EventsResponse_Result.Events = messages\<rparr>
         in GetEventsForBlockIDs_loop lib index types idents (events @ [result]))))))"

definition GetEventsForBlockIDs ::
  "('hm, 'ts, 'tx, 'txm, 'ev, 'val) Lib \<Rightarrow> ('tx, 'ev) Reader \<Rightarrow> GetEventsForBlockIDsRequest \<Rightarrow>
     error + 'ts EventsResponse" where
  "GetEventsForBlockIDs lib index req =
    (let types = (if GetEventsForBlockIDsRequest.Type req \<noteq> []
                  then [GetEventsForBlockIDsRequest.Type req] else [])
     in case GetEventsForBlockIDs_loop lib index types (BlockIds req) [] of
          Inl err \<Rightarrow> Inl err
        | Inr events \<Rightarrow> Inr \<lparr>Results = events\<rparr>)"

subsection \<open>Endpoints that are not implemented\<close>

text \<open>The three handlers ignore their request and return \<open>nil\<close> with a new error.\<close>

definition GetExecutionResultForBlockID :: "'req \<Rightarrow> error + 'resp" where
  "GetExecutionResultForBlockID req =
     Inl (New ''GetExecutionResultForBlockID is not implemented by the Flow DPS API; please use the Flow Access API on a Flow access node directly'')"

definition SendTransaction :: "'req \<Rightarrow> error + 'resp" where
  "SendTransaction req =
     Inl (New ''SendTransaction is not implemented by the Flow DPS API; please use the Flow Access API on a Flow access node directly'')"

definition GetLatestProtocolStateSnapshot :: "'req \<Rightarrow> error + 'resp" where
  "GetLatestProtocolStateSnapshot req =
     Inl (New ''GetLatestProtocolSnapshot is not implemented by the Flow DPS API; please use the Flow Access API on a Flow access node directly'')"

subsection \<open>Successful lookups\<close>

text \<open>
  What one round of the loop of \<open>GetEventsForHeightRange\<close> needs in order not to return
  an error: the events and the header of the height, and a timestamp that converts.
\<close>

definition height_lookups_succeed ::
  "('hm, 'ts, 'tx, 'txm, 'ev, 'val) Lib \<Rightarrow> ('tx, 'ev) Reader \<Rightarrow> EventType list \<Rightarrow>
     uint64 \<Rightarrow> bool" where
  "height_lookups_succeed lib index types height =
     (case Reader.Events index height types of Inl err \<Rightarrow> False
     | Inr ee \<Rightarrow>
     (case Header index height of Inl err \<Rightarrow> False
     | Inr header \<Rightarrow>
     (case TimestampProto lib (Header.Timestamp header) of Inl err \<Rightarrow> False
     | Inr timestamp \<Rightarrow> True)))"

text \<open>The same for one round of the loop of \<open>GetEventsForBlockIDs\<close>, which resolves the
  block identifier first.\<close>

definition block_lookups_succeed ::
  "('hm, 'ts, 'tx, 'txm, 'ev, 'val) Lib \<Rightarrow> ('tx, 'ev) Reader \<Rightarrow> EventType list \<Rightarrow>
     bytes \<Rightarrow> bool" where
  "block_lookups_succeed lib index types ident =
    (case HeightForBlock index (HashToID ident) of Inl err \<Rightarrow> False
     | Inr height \<Rightarrow>
     (case Reader.Events index height types of Inl err \<Rightarrow> False
     | Inr ee \<Rightarrow>
     (case Header index height of Inl err \<Rightarrow> False
     | Inr header \<Rightarrow>
     (case TimestampProto lib (Header.Timestamp header) of Inl err \<Rightarrow> False
     | Inr timestamp \<Rightarrow> True))))"

subsection \<open>Sample index\<close>

text \<open>
  A small index used to run the handlers: heights 100 to 105 hold a header, the last
  indexed height is 103, the block with identifier \<open>HashToID [n]\<close> is at height
  \<open>n\<close>, the transaction with identifier \<open>HashToID [n]\<close> is at height \<open>n\<close>.
\<close>

definition notFound :: error where
  "notFound = New ''key not found''"

definition sampleHeader :: "uint64 \<Rightarrow> Header" where
  "sampleHeader h = \<lparr>ChainID = ''flow-testnet'', ParentID = HashToID [ucast (h - 1)],
     Header.Timestamp = 1000 * int (unat h), ParentVoterSigData = [7]\<rparr>"

definition inRange :: "uint64 \<Rightarrow> bool" where
  "inRange h \<longleftrightarrow> 100 \<le> h \<and> h \<le> 105"

definition sampleIndex :: "(nat, nat) Reader" where
  "sampleIndex =
    \<lparr>First = Inr 100,
     Last = Inr 103,
     Header = (\<lambda>h. if inRange h then Inr (sampleHeader h) else Inl notFound),
     HeightForBlock = (\<lambda>i. if i = HashToID [102] then Inr 102
                           else if i = HashToID [104] then Inr 104 else Inl notFound),
     HeightForTransaction = (\<lambda>i. if i = HashToID [102] then Inr 102
                           else if i = HashToID [104] then Inr 104 else Inl notFound),
     SealsByHeight = (\<lambda>h. if h = 102 then Inr [HashToID [1]]
                          else if inRange h then Inr [] else Inl notFound),
     Seal = (\<lambda>i. if i = HashToID [1]
                 then Inr \<lparr>BlockID = HashToID [101], ResultID = HashToID [9]\<rparr>
                 else Inl notFound),
     CollectionsByHeight = (\<lambda>h. if inRange h then Inr [] else Inl notFound),
     Guarantee = (\<lambda>i. Inl notFound),
     Collection = (\<lambda>i. Inl notFound),
     Reader.Transaction = (\<lambda>i. if i = HashToID [102] then Inr 1
                        else if i = HashToID [104] then Inr 2 else Inl notFound),
     Result = (\<lambda>i. if i = HashToID [102] then Inr \<lparr>TransactionResult.ErrorMessage = []\<rparr>
                   else if i = HashToID [104] then Inr \<lparr>TransactionResult.ErrorMessage = ''reverted''\<rparr>
                   else Inl notFound),
     TransactionsByHeight = (\<lambda>h. if h = 102 then Inr [HashToID [102]]
                          else if h = 104 then Inr [HashToID [104]]
                          else if inRange h then Inr [] else Inl notFound),
     Reader.Events = (\<lambda>h tys. if h = 102 then Inr [5] else if inRange h then Inr [] else Inl notFound)\<rparr>"

definition sampleLib :: "(nat, int, nat, nat, nat, nat) Lib" where
  "sampleLib =
    \<lparr>header_ID = (\<lambda>hd. HashToID [of_int (Header.Timestamp hd div 1000)]),
     DecodeSignerIDs = (\<lambda>hd. Inr []),
     BlockHeaderToMessage = (\<lambda>hd ids. Inr (nat (Header.Timestamp hd div 1000))),
     MessageToBlockHeader = (\<lambda>m. Inr (sampleHeader (of_nat m))),
     timestamppb_New = (\<lambda>t. t),
     TimestampProto = (\<lambda>t. Inr t),
     EventToMessage = (\<lambda>e. \<lparr>Event.Type = ''A.Deposit'', TransactionId = [], TransactionIndex = of_nat e,
                              EventIndex = 0, Payload = []\<rparr>),
     TransactionToMessage = (\<lambda>t. t),
     SystemChunkTransaction = (\<lambda>c. if c = ''flow-testnet'' then Inr 0 else Inl notFound),
     json_Decode = (\<lambda>b. if b = [] then Inl (New ''unexpected end of input'') else Inr (length b)),
     json_Encode = (\<lambda>v. Inr (replicate v 0))\<rparr>"

text \<open>The block that the sample index holds at height 102.\<close>

definition sampleBlock :: "int Block" where
  "sampleBlock =
    \<lparr>Id = HashToID [102],
     Height = 102,
     ParentId = HashToID [101],
     Block.Timestamp = 102000,
     CollectionGuarantees = [],
     BlockSeals = [\<lparr>BlockSeal.BlockId = HashToID [101], ExecutionReceiptId = HashToID [9],
                    ExecutionReceiptSignatures = []\<rparr>],
     Block.Signatures = [[7]]\<rparr>"

text \<open>An invoker that returns the value 0 for every script.\<close>

definition sampleInvoker :: "nat Invoker" where
  "sampleInvoker = \<lparr>Invoker.Script = (\<lambda>height script args. Inr 0)\<rparr>"

section \<open>Properties\<close>

subsection \<open>Status of a transaction result\<close>



subsection \<open>Identifiers\<close>

lemma length_HashToID: "length (HashToID b) = 32"
  by (simp add: HashToID_def)

lemma HashToID_idem: "HashToID (HashToID b) = HashToID b"
  by (simp add: HashToID_def)

subsection \<open>Resolution by identifier and by height\<close>

lemma sample_GetBlockByHeight:
  "GetBlockByHeight sampleLib sampleIndex 102 = Inr \<lparr>BlockResponse.Block = sampleBlock\<rparr>"
  by (simp add: GetBlockByHeight_def sampleIndex_def sampleLib_def sampleBlock_def inRange_def
      sampleHeader_def HashToID_def)

text \<open>
  C2 (as stated). The claim gives the two ways of resolving a block the same response at
  every height between the first and the last. The sample index holds a header at height
  101, between its first height 100 and its last height 103, but does not resolve the
  identifier of that header: \<open>GetBlockByID\<close> returns the error of the resolution where
  \<open>GetBlockByHeight\<close> returns the block.
\<close>

theorem GetBlockByID_unresolved_counterexample:
  "First sampleIndex = Inr 100 \<and> Last sampleIndex = Inr 103
   \<and> (100::uint64) \<le> 101 \<and> (101::uint64) \<le> 103
   \<and> Header sampleIndex 101 = Inr (sampleHeader 101)
   \<and> GetBlockByID sampleLib sampleIndex (header_ID sampleLib (sampleHeader 101))
       = (Inl (Errorf ''could not get height for block %x: %w'' [Hex (HashToID [101])]
                (Some notFound)) :: error + int BlockResponse)
   \<and> GetBlockByHeight sampleLib sampleIndex 101
       = Inr \<lparr>BlockResponse.Block =
               \<lparr>Id = HashToID [101], Height = 101, ParentId = HashToID [100],
                Block.Timestamp = 101000, CollectionGuarantees = [], BlockSeals = [],
                Block.Signatures = [[7]]\<rparr>\<rparr>"
  by (simp add: GetBlockByID_def GetBlockByHeight_def sampleIndex_def sampleLib_def
      inRange_def sampleHeader_def HashToID_def)

text \<open>When the index does not resolve the identifier, the handlers by identifier return
  the error of the resolution, wrapped.\<close>

lemma GetBlockByID_unresolved:
  assumes "HeightForBlock index (HashToID inId) = Inl err"
  shows "GetBlockByID lib index inId
      = Inl (Errorf ''could not get height for block %x: %w'' [Hex (HashToID inId)] (Some err))
    \<and> GetBlockHeaderByID lib index inId
      = Inl (Errorf ''could not get height for block %x: %w'' [Hex (HashToID inId)] (Some err))"
  using assms by (simp add: GetBlockByID_def GetBlockHeaderByID_def)

text \<open>
  C2 (amended). Let the index hold \<open>header\<close> at height \<open>h\<close> and resolve the identifier
  of that header to \<open>h\<close>. Then \<open>GetBlockByID\<close> with that identifier returns what
  \<open>GetBlockByHeight\<close> returns for \<open>h\<close>, \<open>GetBlockHeaderByID\<close> returns what
  \<open>GetBlockHeaderByHeight\<close> returns for \<open>h\<close>, and a block that \<open>GetBlockByID\<close>
  returns has that identifier and the height \<open>h\<close>.
\<close>

theorem GetBlockByID_is_GetBlockByHeight:
  assumes "Header index h = Inr header"
    and "HeightForBlock index (HashToID (header_ID lib header)) = Inr h"
  shows "GetBlockByID lib index (header_ID lib header) = GetBlockByHeight lib index h
       \<and> GetBlockHeaderByID lib index (header_ID lib header) = GetBlockHeaderByHeight lib index h
       \<and> (\<forall>resp. GetBlockByID lib index (header_ID lib header) = Inr resp \<longrightarrow>
             Id (BlockResponse.Block resp) = header_ID lib header
           \<and> Height (BlockResponse.Block resp) = h)"
proof -
  from assms(2) have eq: "GetBlockByID lib index (header_ID lib header) = GetBlockByHeight lib index h"
    and eqh: "GetBlockHeaderByID lib index (header_ID lib header)
        = GetBlockHeaderByHeight lib index h"
    by (simp_all add: GetBlockByID_def GetBlockHeaderByID_def)
  have "Id (BlockResponse.Block resp) = header_ID lib header
      \<and> Height (BlockResponse.Block resp) = h"
    if "GetBlockByHeight lib index h = Inr resp" for resp
    using that assms(1) by (auto simp: GetBlockByHeight_def Let_def split: sum.splits)
  with eq eqh show ?thesis by simp
qed

theorem GetBlockByID_is_GetBlockByHeight_witness:
  "Header sampleIndex 102 = Inr (sampleHeader 102)
   \<and> HeightForBlock sampleIndex (HashToID (header_ID sampleLib (sampleHeader 102))) = Inr 102
   \<and> GetBlockByID sampleLib sampleIndex (header_ID sampleLib (sampleHeader 102))
       = Inr \<lparr>BlockResponse.Block = sampleBlock\<rparr>
   \<and> GetBlockHeaderByID sampleLib sampleIndex (header_ID sampleLib (sampleHeader 102))
       = Inr \<lparr>BlockHeaderResponse.Block = 102\<rparr>
   \<and> Id sampleBlock = header_ID sampleLib (sampleHeader 102) \<and> Height sampleBlock = 102"
proof -
  have h4: "Id sampleBlock = header_ID sampleLib (sampleHeader 102) \<and> Height sampleBlock = 102"
    by (simp add: sampleBlock_def sampleLib_def sampleHeader_def)
  have h1: "Header sampleIndex 102 = Inr (sampleHeader 102)"
    by (simp add: sampleIndex_def inRange_def)
  have h2: "HeightForBlock sampleIndex (HashToID (header_ID sampleLib (sampleHeader 102))) = Inr 102"
    by (simp add: sampleIndex_def sampleLib_def sampleHeader_def HashToID_idem)
  have h3: "GetBlockHeaderByHeight sampleLib sampleIndex 102 = Inr \<lparr>BlockHeaderResponse.Block = 102\<rparr>"
    by (simp add: GetBlockHeaderByHeight_def sampleIndex_def sampleLib_def inRange_def
        sampleHeader_def)
  from GetBlockByID_is_GetBlockByHeight [OF h1 h2] h1 h2 h3 h4 sample_GetBlockByHeight
  show ?thesis by simp
qed

subsection \<open>Seals of a block\<close>

lemma GetBlockByHeight_seals_projected:
  "GetBlockByHeight_seals index sealIDs acc = Inr seals \<Longrightarrow>
   \<exists>new. seals = acc @ new \<and>
     list_all2 (\<lambda>sealID entity. case Seal index sealID of Inl err \<Rightarrow> False
        | Inr seal \<Rightarrow> entity = \<lparr>BlockSeal.BlockId = BlockID seal,
             ExecutionReceiptId = ResultID seal, ExecutionReceiptSignatures = []\<rparr>) sealIDs new"
proof (induction sealIDs arbitrary: acc)
  case Nil
  then show ?case by simp
next
  case (Cons sealID sealIDs)
  then show ?case
    by (fastforce simp: Let_def split: sum.splits)
qed

lemma GetBlockByHeight_seals_of_height:
  assumes "GetBlockByHeight lib index h = Inr resp"
  shows "Height (BlockResponse.Block resp) = h \<and>
    (\<exists>sealIDs. SealsByHeight index h = Inr sealIDs \<and>
     list_all2 (\<lambda>sealID entity. case Seal index sealID of Inl err \<Rightarrow> False
        | Inr seal \<Rightarrow> entity = \<lparr>BlockSeal.BlockId = BlockID seal,
             ExecutionReceiptId = ResultID seal, ExecutionReceiptSignatures = []\<rparr>)
       sealIDs (BlockSeals (BlockResponse.Block resp)))"
  using assms
  by (auto simp: GetBlockByHeight_def Let_def split: sum.splits
      dest!: GetBlockByHeight_seals_projected)

text \<open>
  C7. Whenever \<open>GetBlockByHeight\<close>, \<open>GetBlockByID\<close> or \<open>GetLatestBlock\<close> returns a
  response, the seals of the block in it are, in order, the seals that the index lists for
  the height of that block, each with the block identifier and the result identifier of
  the stored seal and with an empty list of signatures.
\<close>

theorem block_response_seals:
  assumes "r \<in> {GetBlockByHeight lib index h, GetBlockByID lib index inId,
                 GetLatestBlock lib index}"
    and "r = Inr resp"
  shows "\<exists>sealIDs. SealsByHeight index (Height (BlockResponse.Block resp)) = Inr sealIDs \<and>
     list_all2 (\<lambda>sealID entity. case Seal index sealID of Inl err \<Rightarrow> False
        | Inr seal \<Rightarrow> entity = \<lparr>BlockSeal.BlockId = BlockID seal,
             ExecutionReceiptId = ResultID seal, ExecutionReceiptSignatures = []\<rparr>)
       sealIDs (BlockSeals (BlockResponse.Block resp))"
proof -
  from assms obtain h' where "GetBlockByHeight lib index h' = Inr resp"
    by (auto simp: GetBlockByID_def GetLatestBlock_def Let_def split: sum.splits)
  from GetBlockByHeight_seals_of_height [OF this] show ?thesis by simp
qed

theorem block_response_seals_witness:
  "GetBlockByHeight sampleLib sampleIndex 102
     \<in> {GetBlockByHeight sampleLib sampleIndex 102, GetBlockByID sampleLib sampleIndex [],
        GetLatestBlock sampleLib sampleIndex}
   \<and> GetBlockByHeight sampleLib sampleIndex 102 = Inr \<lparr>BlockResponse.Block = sampleBlock\<rparr>
   \<and> SealsByHeight sampleIndex 102 = Inr [HashToID [1]]
   \<and> Seal sampleIndex (HashToID [1]) = Inr \<lparr>BlockID = HashToID [101], ResultID = HashToID [9]\<rparr>
   \<and> BlockSeals sampleBlock = [\<lparr>BlockSeal.BlockId = HashToID [101],
        ExecutionReceiptId = HashToID [9], ExecutionReceiptSignatures = []\<rparr>]"
proof -
  have h1: "GetBlockByHeight sampleLib sampleIndex 102
     \<in> {GetBlockByHeight sampleLib sampleIndex 102, GetBlockByID sampleLib sampleIndex [],
        GetLatestBlock sampleLib sampleIndex}"
    by simp
  have h3: "SealsByHeight sampleIndex 102 = Inr [HashToID [1]]"
    by (simp add: sampleIndex_def)
  have h4: "Seal sampleIndex (HashToID [1])
      = Inr \<lparr>BlockID = HashToID [101], ResultID = HashToID [9]\<rparr>"
    by (simp add: sampleIndex_def)
  have h5: "BlockSeals sampleBlock = [\<lparr>BlockSeal.BlockId = HashToID [101],
        ExecutionReceiptId = HashToID [9], ExecutionReceiptSignatures = []\<rparr>]"
    by (simp add: sampleBlock_def)
  from block_response_seals [OF h1 sample_GetBlockByHeight] h1 h3 h4 h5 sample_GetBlockByHeight
  show ?thesis by simp
qed

subsection \<open>Endpoints that are not implemented\<close>

text \<open>
  C6 (as stated). The claim gives the error of the three handlers the kind Unimplemented.
  The error \<open>SendTransaction\<close> returns for the empty request is a plain error: the code
  it is reported with is \<open>Unknown\<close>, not \<open>Unimplemented\<close>.
\<close>

theorem unimplemented_kind_counterexample:
  "(SendTransaction ([] :: bytes) :: error + unit) = Inl (New ''SendTransaction is not implemented by the Flow DPS API; please use the Flow Access API on a Flow access node directly'')
   \<and> status_Code (New ''SendTransaction is not implemented by the Flow DPS API; please use the Flow Access API on a Flow access node directly'') = Unknown
   \<and> status_Code (New ''SendTransaction is not implemented by the Flow DPS API; please use the Flow Access API on a Flow access node directly'') \<noteq> Unimplemented"
  by (simp add: SendTransaction_def)

text \<open>
  C6 (amended). Whatever the request, \<open>SendTransaction\<close>,
  \<open>GetLatestProtocolStateSnapshot\<close> and \<open>GetExecutionResultForBlockID\<close> return an error
  and no response. The error is a plain error without a kind: it is reported with the
  code \<open>Unknown\<close>, and only its message says that the endpoint is not implemented by the
  Flow DPS API and points to the Flow Access API of an access node.
\<close>

theorem unimplemented_endpoints:
  "SendTransaction req1 = Inl (New ''SendTransaction is not implemented by the Flow DPS API; please use the Flow Access API on a Flow access node directly'')
   \<and> GetLatestProtocolStateSnapshot req2 = Inl (New ''GetLatestProtocolSnapshot is not implemented by the Flow DPS API; please use the Flow Access API on a Flow access node directly'')
   \<and> GetExecutionResultForBlockID req3 = Inl (New ''GetExecutionResultForBlockID is not implemented by the Flow DPS API; please use the Flow Access API on a Flow access node directly'')
   \<and> status_Code (New ''SendTransaction is not implemented by the Flow DPS API; please use the Flow Access API on a Flow access node directly'') = Unknown
   \<and> status_Code (New ''GetLatestProtocolSnapshot is not implemented by the Flow DPS API; please use the Flow Access API on a Flow access node directly'') = Unknown
   \<and> status_Code (New ''GetExecutionResultForBlockID is not implemented by the Flow DPS API; please use the Flow Access API on a Flow access node directly'') = Unknown"
  by (simp add: SendTransaction_def GetLatestProtocolStateSnapshot_def
      GetExecutionResultForBlockID_def)

subsection \<open>Events of a list of blocks\<close>

lemma GetEventsForBlockIDs_loop_order:
  "GetEventsForBlockIDs_loop lib index types idents acc = Inr events \<Longrightarrow>
   \<exists>new. events = acc @ new \<and>
     map EventsResponse_Result.BlockId new = map HashToID idents \<and>
     map (\<lambda>r. Inr (EventsResponse_Result.BlockHeight r)) new
       = map (\<lambda>i. HeightForBlock index (HashToID i)) idents"
proof (induction idents arbitrary: acc)
  case Nil
  then show ?case by simp
next
  case (Cons ident idents)
  then show ?case
    by (fastforce simp: Let_def split: sum.splits)
qed

lemma GetEventsForBlockIDs_loop_succeeds:
  "list_all (block_lookups_succeed lib index types) idents \<Longrightarrow>
   \<exists>events. GetEventsForBlockIDs_loop lib index types idents acc = Inr events"
proof (induction idents arbitrary: acc)
  case Nil
  then show ?case by simp
next
  case (Cons ident idents)
  then show ?case
    by (auto simp: Let_def block_lookups_succeed_def split: sum.splits)
qed

text \<open>
  GetEventsForBlockIDs_order. A response of \<open>GetEventsForBlockIDs\<close> has one record for each block identifier of
  the request, in the order of the request: the record at a position carries the
  identifier at that position and the height the index resolves it to. When the lookups
  of every identifier succeed, there is a response.
\<close>

theorem GetEventsForBlockIDs_order:
  "(GetEventsForBlockIDs lib index req = Inr resp \<longrightarrow>
      map EventsResponse_Result.BlockId (Results resp) = map HashToID (BlockIds req) \<and>
      map (\<lambda>r. Inr (EventsResponse_Result.BlockHeight r)) (Results resp)
        = map (\<lambda>i. HeightForBlock index (HashToID i)) (BlockIds req))
   \<and> (list_all (block_lookups_succeed lib index
          (if GetEventsForBlockIDsRequest.Type req \<noteq> [] then [GetEventsForBlockIDsRequest.Type req] else []))
         (BlockIds req) \<longrightarrow> (\<exists>resp'. GetEventsForBlockIDs lib index req = Inr resp'))"
proof -
  have "map EventsResponse_Result.BlockId (Results resp) = map HashToID (BlockIds req) \<and>
      map (\<lambda>r. Inr (EventsResponse_Result.BlockHeight r)) (Results resp)
        = map (\<lambda>i. HeightForBlock index (HashToID i)) (BlockIds req)"
    if "GetEventsForBlockIDs lib index req = Inr resp"
    using that
    by (auto simp: GetEventsForBlockIDs_def Let_def split: sum.splits if_splits dest!: GetEventsForBlockIDs_loop_order)
  moreover have "\<exists>resp'. GetEventsForBlockIDs lib index req = Inr resp'"
    if "list_all (block_lookups_succeed lib index
          (if GetEventsForBlockIDsRequest.Type req \<noteq> [] then [GetEventsForBlockIDsRequest.Type req] else []))
         (BlockIds req)"
    using GetEventsForBlockIDs_loop_succeeds [OF that, of "[]"]
    by (auto simp: GetEventsForBlockIDs_def Let_def split: sum.splits if_splits)
  ultimately show ?thesis by blast
qed

theorem GetEventsForBlockIDs_order_witness:
  "list_all (block_lookups_succeed sampleLib sampleIndex []) [[104], [102]]
   \<and> (\<exists>resp. GetEventsForBlockIDs sampleLib sampleIndex
        \<lparr>GetEventsForBlockIDsRequest.Type = [], BlockIds = [[104], [102]]\<rparr> = Inr resp
      \<and> map EventsResponse_Result.BlockId (Results resp) = [HashToID [104], HashToID [102]]
      \<and> map EventsResponse_Result.BlockHeight (Results resp) = [104, 102])"
proof -
  have ok: "list_all (block_lookups_succeed sampleLib sampleIndex []) [[104], [102]]"
    by (simp add: block_lookups_succeed_def sampleIndex_def sampleLib_def inRange_def HashToID_def)
  have hs: "HeightForBlock sampleIndex (HashToID [104]) = Inr 104"
     "HeightForBlock sampleIndex (HashToID [102]) = Inr 102"
    by (simp_all add: sampleIndex_def HashToID_def)
  from GetEventsForBlockIDs_order [of sampleLib sampleIndex
      "\<lparr>GetEventsForBlockIDsRequest.Type = [], BlockIds = [[104], [102]]\<rparr>"] ok
  obtain resp where r: "GetEventsForBlockIDs sampleLib sampleIndex
        \<lparr>GetEventsForBlockIDsRequest.Type = [], BlockIds = [[104], [102]]\<rparr> = Inr resp"
    by auto
  from GetEventsForBlockIDs_order [of sampleLib sampleIndex
      "\<lparr>GetEventsForBlockIDsRequest.Type = [], BlockIds = [[104], [102]]\<rparr>" resp] r hs
  have m: "map EventsResponse_Result.BlockId (Results resp) = [HashToID [104], HashToID [102]]
      \<and> map EventsResponse_Result.BlockHeight (Results resp) = [104, 102]"
    by (auto simp: map_eq_Cons_conv)
  show ?thesis
    apply (rule conjI [OF ok])
    apply (rule exI [of _ resp])
    apply (rule conjI [OF r m])
    done
qed

subsection \<open>Script arguments\<close>

lemma ExecuteScriptAtBlockHeight_args_fails:
  "a \<in> set arguments \<Longrightarrow> json_Decode lib a = Inl e \<Longrightarrow>
   \<exists>err. ExecuteScriptAtBlockHeight_args lib arguments acc
      = Inl (Errorf ''could not decode script argument: %w'' [] (Some err))"
proof (induction arguments arbitrary: acc)
  case Nil
  then show ?case by simp
next
  case (Cons arg rest)
  then show ?case
    by (cases "json_Decode lib arg") auto
qed

text \<open>
  ExecuteScriptAtBlockHeight_decode_failure. When some argument of an \<open>ExecuteScriptAtBlockHeight\<close> request does not decode,
  the handler returns the error that wraps the decoding error and has made no call to
  the script invoker.
\<close>

theorem ExecuteScriptAtBlockHeight_decode_failure:
  assumes "a \<in> set (Arguments req)" and "json_Decode lib a = Inl e"
  shows "snd (ExecuteScriptAtBlockHeight lib invoker req) = [] \<and>
    (\<exists>err. fst (ExecuteScriptAtBlockHeight lib invoker req)
       = Inl (Errorf ''could not decode script argument: %w'' [] (Some err)))"
proof -
  from ExecuteScriptAtBlockHeight_args_fails [OF assms, of "[]"] obtain err where
    "ExecuteScriptAtBlockHeight_args lib (Arguments req) []
      = Inl (Errorf ''could not decode script argument: %w'' [] (Some err))" by blast
  then show ?thesis by (simp add: ExecuteScriptAtBlockHeight_def)
qed

text \<open>When every argument decodes, the invoker is called once, with the decoded values.\<close>

lemma ExecuteScriptAtBlockHeight_invokes_once:
  assumes "ExecuteScriptAtBlockHeight_args lib (Arguments req) [] = Inr args"
  shows "snd (ExecuteScriptAtBlockHeight lib invoker req)
     = [ScriptCall (ExecuteScriptAtBlockHeightRequest.BlockHeight req) (ExecuteScriptAtBlockHeightRequest.Script req) args]"
  using assms by (simp add: ExecuteScriptAtBlockHeight_def Let_def split: sum.splits)

theorem ExecuteScriptAtBlockHeight_decode_failure_witness:
  "[] \<in> set (Arguments \<lparr>ExecuteScriptAtBlockHeightRequest.BlockHeight = 102, ExecuteScriptAtBlockHeightRequest.Script = [1], Arguments = [[1], []]\<rparr>)
   \<and> json_Decode sampleLib [] = Inl (New ''unexpected end of input'')
   \<and> ExecuteScriptAtBlockHeight sampleLib sampleInvoker
        \<lparr>ExecuteScriptAtBlockHeightRequest.BlockHeight = 102, ExecuteScriptAtBlockHeightRequest.Script = [1], Arguments = [[1], []]\<rparr>
      = (Inl (Errorf ''could not decode script argument: %w'' []
               (Some (New ''unexpected end of input''))), [])
   \<and> snd (ExecuteScriptAtBlockHeight sampleLib sampleInvoker
        \<lparr>ExecuteScriptAtBlockHeightRequest.BlockHeight = 102, ExecuteScriptAtBlockHeightRequest.Script = [1], Arguments = [[1]]\<rparr>)
      = [ScriptCall 102 [1] [1]]"
proof -
  have h1: "[] \<in> set (Arguments \<lparr>ExecuteScriptAtBlockHeightRequest.BlockHeight = 102, ExecuteScriptAtBlockHeightRequest.Script = [1], Arguments = [[1], []]\<rparr>)"
    by simp
  have h2: "json_Decode sampleLib [] = Inl (New ''unexpected end of input'')"
    by (simp add: sampleLib_def)
  have h3: "ExecuteScriptAtBlockHeight sampleLib sampleInvoker
        \<lparr>ExecuteScriptAtBlockHeightRequest.BlockHeight = 102, ExecuteScriptAtBlockHeightRequest.Script = [1], Arguments = [[1], []]\<rparr>
      = (Inl (Errorf ''could not decode script argument: %w'' []
               (Some (New ''unexpected end of input''))), [])"
    by (simp add: ExecuteScriptAtBlockHeight_def sampleLib_def sampleInvoker_def)
  have h4: "snd (ExecuteScriptAtBlockHeight sampleLib sampleInvoker
        \<lparr>ExecuteScriptAtBlockHeightRequest.BlockHeight = 102, ExecuteScriptAtBlockHeightRequest.Script = [1], Arguments = [[1]]\<rparr>)
      = [ScriptCall 102 [1] [1]]"
    by (simp add: ExecuteScriptAtBlockHeight_def sampleLib_def sampleInvoker_def)
  from ExecuteScriptAtBlockHeight_decode_failure [OF h1 h2, of "sampleInvoker"] h1 h2 h3 h4
  show ?thesis by simp
qed

subsection \<open>Transactions of a block\<close>

lemma GetTransactionsByBlockID_loop_messages:
  "GetTransactionsByBlockID_loop lib index transactions acc = Inr entity \<Longrightarrow>
   \<exists>new. entity = acc @ new \<and>
     list_all2 (\<lambda>transaction msg. case Reader.Transaction index (HashToID transaction) of
           Inl err \<Rightarrow> False | Inr tx \<Rightarrow> msg = TransactionToMessage lib tx) transactions new"
proof (induction transactions arbitrary: acc)
  case Nil
  then show ?case by simp
next
  case (Cons t ts)
  then show ?case
    by (fastforce simp: Let_def GetTransaction_def IdentifierToMessage_def split: sum.splits)
qed

text \<open>
  GetTransactionsByBlockID_system_transaction. The transactions of a \<open>GetTransactionsByBlockID\<close> response are the messages of
  the transactions that the index lists for the height of the block, in that order,
  followed by one more: the system chunk transaction of the chain of the header. The
  response holds one transaction more than the index lists.
\<close>

theorem GetTransactionsByBlockID_system_transaction:
  assumes "GetTransactionsByBlockID lib index inBlockId = Returned (Inr resp)"
  shows "\<exists>height transactions headerResp header systemTx msgs.
     HeightForBlock index (HashToID inBlockId) = Inr height \<and>
     TransactionsByHeight index height = Inr transactions \<and>
     GetBlockHeaderByHeight lib index height = Inr headerResp \<and>
     MessageToBlockHeader lib (BlockHeaderResponse.Block headerResp) = Inr header \<and>
     SystemChunkTransaction lib (ChainID header) = Inr systemTx \<and>
     Transactions resp = msgs @ [TransactionToMessage lib systemTx] \<and>
     list_all2 (\<lambda>transaction msg. case Reader.Transaction index (HashToID transaction) of
           Inl err \<Rightarrow> False | Inr tx \<Rightarrow> msg = TransactionToMessage lib tx) transactions msgs \<and>
     length (Transactions resp) = length transactions + 1"
  using assms
  by (auto simp: GetTransactionsByBlockID_def Let_def list_all2_lengthD split: sum.splits dest!: GetTransactionsByBlockID_loop_messages)

theorem GetTransactionsByBlockID_system_transaction_witness:
  "GetTransactionsByBlockID sampleLib sampleIndex [102]
      = Returned (Inr \<lparr>Transactions = [1, 0]\<rparr>)
   \<and> TransactionsByHeight sampleIndex 102 = Inr [HashToID [102]]
   \<and> Reader.Transaction sampleIndex (HashToID [102]) = Inr 1
   \<and> SystemChunkTransaction sampleLib ''flow-testnet'' = Inr 0"
proof -
  have h: "GetTransactionsByBlockID sampleLib sampleIndex [102]
      = Returned (Inr \<lparr>Transactions = [1, 0]\<rparr>)"
    by (simp add: GetTransactionsByBlockID_def GetBlockHeaderByHeight_def GetTransaction_def
        IdentifierToMessage_def sampleIndex_def sampleLib_def inRange_def sampleHeader_def
        HashToID_def)
  from GetTransactionsByBlockID_system_transaction [OF h] h show ?thesis
    by (simp add: sampleIndex_def sampleLib_def)
qed


subsection \<open>Transaction result by index\<close>

text \<open>When the results of the block cannot be resolved, the handler panics.\<close>

lemma nil_response_is_dereferenced:
  "GetTransactionResultsByBlockID lib index (GetTransactionByIndexRequest.BlockId req) = Inl err \<Longrightarrow>
   GetTransactionResultByIndex lib index req = Panicked NilDereference"
  by (simp add: GetTransactionResultByIndex_def)

text \<open>
  C4. The claim is that \<open>GetTransactionResultByIndex\<close> returns the failure of resolving
  the results of the block as a wrapped error. On the sample index no block has the
  identifier \<open>HashToID [1]\<close>: resolving the results fails, and the handler panics on a
  nil pointer instead of returning.
\<close>

theorem GetTransactionResultByIndex_panics:
  "HeightForBlock sampleIndex (HashToID [1]) = Inl notFound \<and>
   GetTransactionResultsByBlockID sampleLib sampleIndex [1] = Inl (Errorf ''could not get height for block %x: %w'' [Hex (HashToID [1])] (Some notFound)) \<and>
   GetTransactionResultByIndex sampleLib sampleIndex \<lparr>GetTransactionByIndexRequest.BlockId = [1], Index = 0\<rparr> = Panicked NilDereference"
  by (simp add: GetTransactionResultByIndex_def GetTransactionResultsByBlockID_def sampleIndex_def HashToID_def)


subsection \<open>Events of a range of heights\<close>

lemma height_lookups_succeedD:
  assumes "height_lookups_succeed lib index types height"
  obtains ee header timestamp where "Reader.Events index height types = Inr ee"
    and "Header index height = Inr header"
    and "TimestampProto lib (Header.Timestamp header) = Inr timestamp"
  using assms by (auto simp: height_lookups_succeed_def split: sum.splits)

text \<open>With an end height below the largest \<open>uint64\<close> the loop returns.\<close>

lemma GetEventsForHeightRange_loop_returns:
  assumes "unat inEndHeight < 2 ^ 64 - 1"
  shows "\<exists>y. GetEventsForHeightRange_loop lib index types height inEndHeight events = Some y"
  using assms
proof (induction "unat inEndHeight + 1 - unat height" arbitrary: height events)
  case 0
  then have "\<not> height \<le> inEndHeight" by (simp add: word_le_nat_alt)
  then show ?case by (subst GetEventsForHeightRange_loop.simps) simp
next
  case (Suc n)
  then have le: "height \<le> inEndHeight" by (simp add: word_le_nat_alt)
  have "unat (height + 1) = unat height + 1"
    using Suc.prems Suc.hyps(2) by (simp add: unat_word_ariths)
  with Suc.hyps(2) have "n = unat inEndHeight + 1 - unat (height + 1)" by simp
  from Suc.hyps(1) [OF this Suc.prems]
  have ih: "\<exists>y. GetEventsForHeightRange_loop lib index types (height + 1) inEndHeight ev = Some y"
    for ev by blast
  show ?case
    by (subst GetEventsForHeightRange_loop.simps) (simp add: le Let_def ih split: sum.splits)
qed

text \<open>
  With the largest \<open>uint64\<close> as end height the comparison never fails and the counter
  wraps around: the loop returns only through the error of a lookup. It could run forever
  only over an index whose lookups succeed at each of the \<open>2 ^ 64\<close> heights.
\<close>

lemma GetEventsForHeightRange_loop_diverges:
  assumes "GetEventsForHeightRange_loop lib index types height inEndHeight events = Some y"
  shows "\<not> (inEndHeight = - 1 \<and> (\<forall>h. height_lookups_succeed lib index types h))"
  using assms
proof (induction rule: GetEventsForHeightRange_loop.raw_induct[rotated 1, consumes 1])
  case (1 loop lib index types height inEndHeight events y)
  show ?case
  proof
    assume a: "inEndHeight = - 1 \<and> (\<forall>h. height_lookups_succeed lib index types h)"
    then have "height_lookups_succeed lib index types height" by blast
    then obtain ee header timestamp where "Reader.Events index height types = Inr ee"
      and "Header index height = Inr header"
      and "TimestampProto lib (Header.Timestamp header) = Inr timestamp"
      by (rule height_lookups_succeedD)
    with a "1.hyps" obtain ev where "loop lib index types (height + 1) inEndHeight ev = Some y"
      by (auto simp: Let_def)
    from "1.IH" [OF this] a show False by blast
  qed
qed

text \<open>As soon as the lookups of some height fail, that loop returns an error.\<close>

lemma GetEventsForHeightRange_loop_fails:
  assumes "\<not> height_lookups_succeed lib index types hf"
  shows "\<exists>e. GetEventsForHeightRange_loop lib index types height (- 1) events = Some (Inl e)"
proof (induction "unat (hf - height)" arbitrary: height events)
  case 0
  then have "height = hf" by (simp add: unat_eq_0)
  with assms show ?case
    by (subst GetEventsForHeightRange_loop.simps)
      (auto simp: height_lookups_succeed_def Let_def split: sum.splits)
next
  case (Suc n)
  have "unat (hf - (height + 1)) = unat ((hf - height) - 1)"
    by (simp add: diff_diff_eq)
  also have "\<dots> = unat (hf - height) - 1"
    using Suc.hyps(2) by (metis unat_minus_one unat_0 Zero_not_Suc)
  finally have "n = unat (hf - (height + 1))" using Suc.hyps(2) by simp
  from Suc.hyps(1) [OF this]
  have ih: "\<exists>e. GetEventsForHeightRange_loop lib index types (height + 1) (- 1) ev = Some (Inl e)"
    for ev by blast
  show ?case
    by (subst GetEventsForHeightRange_loop.simps) (simp add: Let_def ih split: sum.splits)
qed

text \<open>The records the loop appends while the lookups succeed.\<close>

lemma GetEventsForHeightRange_loop_records:
  assumes "unat inEndHeight < 2 ^ 64 - 1"
    and "\<forall>h. height \<le> h \<and> h \<le> inEndHeight \<longrightarrow> height_lookups_succeed lib index types h"
  shows "\<exists>new. GetEventsForHeightRange_loop lib index types height inEndHeight events
            = Some (Inr (events @ new))
          \<and> length new = unat inEndHeight + 1 - unat height
          \<and> list_all2 (\<lambda>i r. EventsResponse_Result.BlockHeight r = height + of_nat i
               \<and> (case Reader.Events index (height + of_nat i) types of Inl err \<Rightarrow> False
                   | Inr ee \<Rightarrow> EventsResponse_Result.Events r = map (EventToMessage lib) ee))
              [0 ..< length new] new"
  using assms
proof (induction "unat inEndHeight + 1 - unat height" arbitrary: height events)
  case 0
  then have "\<not> height \<le> inEndHeight" by (simp add: word_le_nat_alt)
  then have "GetEventsForHeightRange_loop lib index types height inEndHeight events
      = Some (Inr events)"
    by (subst GetEventsForHeightRange_loop.simps) simp
  with 0 show ?case by simp
next
  case (Suc n)
  then have le: "height \<le> inEndHeight" by (simp add: word_le_nat_alt)
  have un: "unat (height + 1) = unat height + 1"
    using Suc.prems(1) Suc.hyps(2) by (simp add: unat_word_ariths)
  with Suc.hyps(2) have n: "n = unat inEndHeight + 1 - unat (height + 1)" by simp
  have "height \<le> height + 1" using un by (simp add: word_le_nat_alt)
  with Suc.prems(2) have ok': "\<forall>h. height + 1 \<le> h \<and> h \<le> inEndHeight
      \<longrightarrow> height_lookups_succeed lib index types h"
    by auto
  from Suc.prems(2) le have "height_lookups_succeed lib index types height" by simp
  then obtain ee header timestamp where ev: "Reader.Events index height types = Inr ee"
    and hd: "Header index height = Inr header"
    and ts: "TimestampProto lib (Header.Timestamp header) = Inr timestamp"
    by (rule height_lookups_succeedD)
  define result where "result = \<lparr>EventsResponse_Result.BlockId = header_ID lib header,
     EventsResponse_Result.BlockHeight = height, BlockTimestamp = timestamp,
     EventsResponse_Result.Events = map (EventToMessage lib) ee\<rparr>"
  from Suc.hyps(1) [OF n Suc.prems(1) ok', of "events @ [result]"]
  obtain new where new: "GetEventsForHeightRange_loop lib index types (height + 1) inEndHeight
        (events @ [result]) = Some (Inr ((events @ [result]) @ new))"
    and len: "length new = n"
    and all: "list_all2 (\<lambda>i r. EventsResponse_Result.BlockHeight r = height + 1 + of_nat i
               \<and> (case Reader.Events index (height + 1 + of_nat i) types of Inl err \<Rightarrow> False
                   | Inr ee \<Rightarrow> EventsResponse_Result.Events r = map (EventToMessage lib) ee))
              [0 ..< length new] new"
    using n by auto
  have eq: "height + 1 + of_nat i = height + of_nat (Suc i)" for i
    by simp
  have step: "GetEventsForHeightRange_loop lib index types height inEndHeight events
      = Some (Inr (events @ result # new))"
    by (subst GetEventsForHeightRange_loop.simps) (simp add: le ev hd ts Let_def result_def [symmetric] new)
  have hd0: "EventsResponse_Result.BlockHeight result = height + of_nat 0
      \<and> (case Reader.Events index (height + of_nat 0) types of Inl err \<Rightarrow> False
          | Inr ee \<Rightarrow> EventsResponse_Result.Events result = map (EventToMessage lib) ee)"
    by (simp add: result_def ev)
  have "list_all2 (\<lambda>i r. EventsResponse_Result.BlockHeight r = height + of_nat i
               \<and> (case Reader.Events index (height + of_nat i) types of Inl err \<Rightarrow> False
                   | Inr ee \<Rightarrow> EventsResponse_Result.Events r = map (EventToMessage lib) ee))
              (0 # map Suc [0 ..< length new]) (result # new)"
    using all hd0 unfolding eq list_all2_Cons list_all2_map1 by blast
  then have "list_all2 (\<lambda>i r. EventsResponse_Result.BlockHeight r = height + of_nat i
               \<and> (case Reader.Events index (height + of_nat i) types of Inl err \<Rightarrow> False
                   | Inr ee \<Rightarrow> EventsResponse_Result.Events r = map (EventToMessage lib) ee))
              [0 ..< length (result # new)] (result # new)"
    by (simp only: upt_conv_Cons [of 0] map_Suc_upt length_Cons zero_less_Suc)
  with step len Suc.hyps(2) show ?case by (intro exI [of _ "result # new"]) simp
qed


text \<open>
  GetEventsForHeightRange_records (as stated). The claim gives \<open>end - start + 1\<close> records to every range query whose
  lookups succeed. The query from 105 to 100 on the sample index succeeds with no record,
  and \<open>end - start + 1\<close> is not 0 there, neither in \<open>uint64\<close> nor in the integers.
\<close>

theorem GetEventsForHeightRange_count_counterexample:
  "GetEventsForHeightRange sampleLib sampleIndex
      \<lparr>GetEventsForHeightRangeRequest.Type = [], StartHeight = 105, EndHeight = 100\<rparr>
     = Some (Inr \<lparr>Results = []\<rparr>)
   \<and> length (Results (\<lparr>Results = []\<rparr> :: int EventsResponse)) \<noteq> unat ((100::uint64) - 105 + 1)
   \<and> int (length (Results (\<lparr>Results = []\<rparr> :: int EventsResponse)))
        \<noteq> int (unat (100::uint64)) - int (unat (105::uint64)) + 1"
proof -
  have "GetEventsForHeightRange_loop sampleLib sampleIndex [] 105 100 [] = Some (Inr [])"
    by (subst GetEventsForHeightRange_loop.simps) simp
  then show ?thesis by (simp add: GetEventsForHeightRange_def)
qed

text \<open>
  GetEventsForHeightRange_records (amended). For a range query with \<open>StartHeight \<le> EndHeight < 2 ^ 64 - 1\<close> in which
  the lookups of every height of the range succeed, \<open>GetEventsForHeightRange\<close> returns a
  response with exactly \<open>EndHeight - StartHeight + 1\<close> records; the record at position
  \<open>i\<close> is for height \<open>StartHeight + i\<close> and carries the messages of the events the
  index returns for that height, none when there are none. A query with
  \<open>EndHeight < StartHeight\<close> returns a response without records.
\<close>

theorem GetEventsForHeightRange_records:
  "(StartHeight req \<le> EndHeight req \<and> unat (EndHeight req) < 2 ^ 64 - 1 \<and>
    (\<forall>h. StartHeight req \<le> h \<and> h \<le> EndHeight req \<longrightarrow>
       height_lookups_succeed lib index
         (if GetEventsForHeightRangeRequest.Type req \<noteq> []
          then [GetEventsForHeightRangeRequest.Type req] else []) h) \<longrightarrow>
    (\<exists>resp. GetEventsForHeightRange lib index req = Some (Inr resp) \<and>
       length (Results resp) = unat (EndHeight req) - unat (StartHeight req) + 1 \<and>
       list_all2 (\<lambda>i r. EventsResponse_Result.BlockHeight r = StartHeight req + of_nat i \<and>
           (case Reader.Events index (StartHeight req + of_nat i)
                   (if GetEventsForHeightRangeRequest.Type req \<noteq> []
                    then [GetEventsForHeightRangeRequest.Type req] else []) of
              Inl err \<Rightarrow> False
            | Inr ee \<Rightarrow> EventsResponse_Result.Events r = map (EventToMessage lib) ee))
         [0 ..< length (Results resp)] (Results resp)))
   \<and> (EndHeight req < StartHeight req \<longrightarrow>
        GetEventsForHeightRange lib index req = Some (Inr \<lparr>Results = []\<rparr>))"
proof -
  define types where "types = (if GetEventsForHeightRangeRequest.Type req \<noteq> []
          then [GetEventsForHeightRangeRequest.Type req] else [])"
  have "\<exists>resp. GetEventsForHeightRange lib index req = Some (Inr resp) \<and>
       length (Results resp) = unat (EndHeight req) - unat (StartHeight req) + 1 \<and>
       list_all2 (\<lambda>i r. EventsResponse_Result.BlockHeight r = StartHeight req + of_nat i \<and>
           (case Reader.Events index (StartHeight req + of_nat i) types of
              Inl err \<Rightarrow> False
            | Inr ee \<Rightarrow> EventsResponse_Result.Events r = map (EventToMessage lib) ee))
         [0 ..< length (Results resp)] (Results resp)"
    if le: "StartHeight req \<le> EndHeight req" and lt: "unat (EndHeight req) < 2 ^ 64 - 1"
      and ok: "\<forall>h. StartHeight req \<le> h \<and> h \<le> EndHeight req \<longrightarrow>
       height_lookups_succeed lib index types h"
  proof -
    from GetEventsForHeightRange_loop_records [OF lt ok, of "[]"] obtain new where
      run: "GetEventsForHeightRange_loop lib index types (StartHeight req) (EndHeight req) []
          = Some (Inr new)"
      and len: "length new = unat (EndHeight req) + 1 - unat (StartHeight req)"
      and all: "list_all2 (\<lambda>i r. EventsResponse_Result.BlockHeight r = StartHeight req + of_nat i \<and>
           (case Reader.Events index (StartHeight req + of_nat i) types of
              Inl err \<Rightarrow> False
            | Inr ee \<Rightarrow> EventsResponse_Result.Events r = map (EventToMessage lib) ee))
         [0 ..< length new] new"
      by auto
    from le have "unat (StartHeight req) \<le> unat (EndHeight req)" by (simp add: word_le_nat_alt)
    with len have len': "length new = unat (EndHeight req) - unat (StartHeight req) + 1" by simp
    from run have "GetEventsForHeightRange lib index req = Some (Inr \<lparr>Results = new\<rparr>)"
      by (simp add: GetEventsForHeightRange_def types_def)
    with len' all show ?thesis by simp
  qed
  moreover have "GetEventsForHeightRange lib index req = Some (Inr \<lparr>Results = []\<rparr>)"
    if "EndHeight req < StartHeight req"
  proof -
    from that have "\<not> StartHeight req \<le> EndHeight req" by simp
    then have "GetEventsForHeightRange_loop lib index types (StartHeight req) (EndHeight req) []
          = Some (Inr [])"
      by (subst GetEventsForHeightRange_loop.simps) simp
    then show ?thesis by (simp add: GetEventsForHeightRange_def types_def)
  qed
  ultimately show ?thesis unfolding types_def by blast
qed

theorem GetEventsForHeightRange_records_witness:
  "(100::uint64) \<le> 105 \<and> unat (105::uint64) < 2 ^ 64 - 1
   \<and> list_all (height_lookups_succeed sampleLib sampleIndex []) [100, 101, 102, 103, 104, 105]
   \<and> (\<exists>resp. GetEventsForHeightRange sampleLib sampleIndex
          \<lparr>GetEventsForHeightRangeRequest.Type = [], StartHeight = 100, EndHeight = 105\<rparr>
          = Some (Inr resp) \<and> length (Results resp) = 6)
   \<and> (100::uint64) < 105
   \<and> GetEventsForHeightRange sampleLib sampleIndex
          \<lparr>GetEventsForHeightRangeRequest.Type = [], StartHeight = 105, EndHeight = 100\<rparr>
        = Some (Inr \<lparr>Results = []\<rparr>)"
proof -
  have ok: "\<forall>h. (100::uint64) \<le> h \<and> h \<le> 105 \<longrightarrow> height_lookups_succeed sampleLib sampleIndex [] h"
    by (simp add: height_lookups_succeed_def sampleIndex_def sampleLib_def inRange_def)
  from GetEventsForHeightRange_records [of "\<lparr>GetEventsForHeightRangeRequest.Type = [], StartHeight = 100, EndHeight = 105\<rparr>"
      sampleLib sampleIndex] ok
  obtain resp where r: "GetEventsForHeightRange sampleLib sampleIndex
          \<lparr>GetEventsForHeightRangeRequest.Type = [], StartHeight = 100, EndHeight = 105\<rparr>
          = Some (Inr resp)" and l: "length (Results resp) = 6"
    by auto
  have e: "\<exists>resp. GetEventsForHeightRange sampleLib sampleIndex
          \<lparr>GetEventsForHeightRangeRequest.Type = [], StartHeight = 100, EndHeight = 105\<rparr>
          = Some (Inr resp) \<and> length (Results resp) = 6"
    by (rule exI [of _ resp]) (rule conjI [OF r l])
  from GetEventsForHeightRange_records [of "\<lparr>GetEventsForHeightRangeRequest.Type = [], StartHeight = 105, EndHeight = 100\<rparr>"
      sampleLib sampleIndex]
  have z: "GetEventsForHeightRange sampleLib sampleIndex
          \<lparr>GetEventsForHeightRangeRequest.Type = [], StartHeight = 105, EndHeight = 100\<rparr>
        = Some (Inr \<lparr>Results = []\<rparr>)"
    by simp
  have a: "(100::uint64) \<le> 105" "unat (105::uint64) < 2 ^ 64 - 1" "(100::uint64) < 105"
    by simp_all
  have ok': "list_all (height_lookups_succeed sampleLib sampleIndex [])
      [100, 101, 102, 103, 104, 105]"
    by (simp add: height_lookups_succeed_def sampleIndex_def sampleLib_def inRange_def)
  from a ok' e z show ?thesis by (intro conjI)
qed

text \<open>
  C10. \<open>GetEventsForHeightRange\<close> returns, a response or an error, for every pair of
  start and end height, the end height \<open>2 ^ 64 - 1\<close> included, on every index that
  lacks a height: one whose events or header the index does not hold. Below that end
  height it returns on any index.
\<close>

theorem GetEventsForHeightRange_returns:
  assumes "unat (EndHeight req) < 2 ^ 64 - 1
    \<or> (\<exists>h. \<not> height_lookups_succeed lib index
          (if GetEventsForHeightRangeRequest.Type req \<noteq> []
           then [GetEventsForHeightRangeRequest.Type req] else []) h)"
  shows "\<exists>y. GetEventsForHeightRange lib index req = Some y"
proof -
  define types where "types = (if GetEventsForHeightRangeRequest.Type req \<noteq> []
          then [GetEventsForHeightRangeRequest.Type req] else [])"
  have "\<exists>y. GetEventsForHeightRange_loop lib index types (StartHeight req) (EndHeight req) []
      = Some y"
  proof (cases "unat (EndHeight req) < 2 ^ 64 - 1")
    case True
    then show ?thesis by (rule GetEventsForHeightRange_loop_returns)
  next
    case False
    have "unat (EndHeight req) < 2 ^ 64"
      using unsigned_less [of "EndHeight req", where ?'a = nat] by simp
    moreover have "unat (- 1 :: uint64) = 2 ^ 64 - 1"
      by (simp add: unsigned_minus_1_eq_mask mask_eq_exp_minus_1)
    ultimately have "unat (EndHeight req) = unat (- 1 :: uint64)"
      using False by simp
    then have m: "EndHeight req = - 1" by (simp only: word_unat_eq_iff)
    from False assms obtain h where "\<not> height_lookups_succeed lib index types h"
      unfolding types_def by blast
    from GetEventsForHeightRange_loop_fails [OF this, of "StartHeight req" "[]"] m
    show ?thesis by auto
  qed
  then obtain y where "GetEventsForHeightRange_loop lib index types (StartHeight req)
      (EndHeight req) [] = Some y" by blast
  then show ?thesis
    by (cases y) (simp_all add: GetEventsForHeightRange_def types_def [symmetric])
qed

theorem GetEventsForHeightRange_returns_witness:
  "\<not> height_lookups_succeed sampleLib sampleIndex [] 106
   \<and> GetEventsForHeightRange sampleLib sampleIndex
        \<lparr>GetEventsForHeightRangeRequest.Type = [], StartHeight = 105,
         EndHeight = 18446744073709551615\<rparr>
      = Some (Inl (Errorf ''could not get events at height %d: %w'' [U64 106] (Some notFound)))"
proof -
  have h: "\<not> height_lookups_succeed sampleLib sampleIndex [] 106"
    by (simp add: height_lookups_succeed_def sampleIndex_def inRange_def)
  have "GetEventsForHeightRange_loop sampleLib sampleIndex [] 105 18446744073709551615 []
      = Some (Inl (Errorf ''could not get events at height %d: %w'' [U64 106] (Some notFound)))"
    apply (subst GetEventsForHeightRange_loop.simps)
    apply (simp add: sampleIndex_def sampleLib_def inRange_def sampleHeader_def)
    apply (subst GetEventsForHeightRange_loop.simps)
    apply (simp add: sampleIndex_def sampleLib_def inRange_def sampleHeader_def)
    done
  then have r: "GetEventsForHeightRange sampleLib sampleIndex
        \<lparr>GetEventsForHeightRangeRequest.Type = [], StartHeight = 105,
         EndHeight = 18446744073709551615\<rparr>
      = Some (Inl (Errorf ''could not get events at height %d: %w'' [U64 106] (Some notFound)))"
    by (simp add: GetEventsForHeightRange_def)
  from GetEventsForHeightRange_returns [of "\<lparr>GetEventsForHeightRangeRequest.Type = [],
      StartHeight = 105, EndHeight = 18446744073709551615\<rparr>" sampleLib sampleIndex] h r
  show ?thesis by simp
qed

end
